theory Spec2Isabelle
  imports Complex_Main
begin

section \<open>JavaScript values at the HTTP boundary\<close>

text \<open>
  The routers read \<open>req.body\<close> as parsed by \<open>express.json()\<close>: any JSON value. The
  routes test these values with \<open>!x\<close>, \<open>a || b\<close>, \<open>a ?? b\<close>, \<open>typeof\<close>,
  \<open>Array.isArray\<close>, \<open>String(x)\<close> and \<open>Number(x)\<close>, so the model keeps the whole
  value. A number is a finite rational (the exact value of the double; the sign of zero
  plays no part in any test made here), an infinity (\<open>JSON.parse\<close> of \<open>1e999\<close>) or NaN
  (the result of a failed \<open>Number(x)\<close>).
\<close>

datatype jsnum = JNaN | JPosInf | JNegInf | JFin rat

datatype jsval =
    JUndefined
  | JNull
  | JBool bool
  | JNum jsnum
  | JStr string
  | JArr "jsval list"
  | JObj "(string \<times> jsval) list"

text \<open>\<open>ToBoolean\<close>: the falsy values are undefined, null, false, 0, NaN and the empty string.\<close>

fun truthy :: "jsval \<Rightarrow> bool" where
  "truthy JUndefined = False"
| "truthy JNull = False"
| "truthy (JBool b) = b"
| "truthy (JNum JNaN) = False"
| "truthy (JNum (JFin q)) = (q \<noteq> 0)"
| "truthy (JNum JPosInf) = True"
| "truthy (JNum JNegInf) = True"
| "truthy (JStr s) = (s \<noteq> [])"
| "truthy (JArr xs) = True"
| "truthy (JObj kvs) = True"

text \<open>\<open>a || b\<close> is \<open>a\<close> when \<open>a\<close> is truthy and \<open>b\<close> otherwise.\<close>

definition js_or :: "jsval \<Rightarrow> jsval \<Rightarrow> jsval" where
  "js_or a b = (if truthy a then a else b)"

text \<open>\<open>a ?? b\<close> is \<open>b\<close> only when \<open>a\<close> is null or undefined.\<close>

definition js_nullish :: "jsval \<Rightarrow> bool" where
  "js_nullish v = (v = JNull \<or> v = JUndefined)"

definition js_coalesce :: "jsval \<Rightarrow> jsval \<Rightarrow> jsval" where
  "js_coalesce a b = (if js_nullish a then b else a)"

definition typeof_number :: "jsval \<Rightarrow> bool" where
  "typeof_number v = (case v of JNum n \<Rightarrow> True | _ \<Rightarrow> False)"

text \<open>
  Reading a named field: an own property of a parsed object, \<open>undefined\<close> when the key is
  absent. None of the field names read by the routers is a member of a prototype, so a
  body that is an array (or any other value that reaches a read) gives \<open>undefined\<close> too.
\<close>

definition js_get :: "jsval \<Rightarrow> string \<Rightarrow> jsval" where
  "js_get v k = (case v of
      JObj kvs \<Rightarrow> (case map_of kvs k of Some x \<Rightarrow> x | None \<Rightarrow> JUndefined)
    | _ \<Rightarrow> JUndefined)"

subsection \<open>Strings\<close>

text \<open>
  A string is a list of 8-bit characters, read as the code units U+0000 to U+00FF.
  \<open>toUpperCase\<close> and \<open>toLowerCase\<close> are modelled on the ASCII letters, which is all that
  the comparisons made by the routers (with ASCII literals) can observe for the enum
  labels and flags they are applied to.
\<close>

definition is_lower :: "char \<Rightarrow> bool" where
  "is_lower c = (97 \<le> (of_char c :: nat) \<and> (of_char c :: nat) \<le> 122)"

definition is_upper :: "char \<Rightarrow> bool" where
  "is_upper c = (65 \<le> (of_char c :: nat) \<and> (of_char c :: nat) \<le> 90)"

text \<open>An ASCII letter changes case by its bit of weight 32.\<close>

fun set_case_bit :: "bool \<Rightarrow> char \<Rightarrow> char" where
  "set_case_bit b (Char b0 b1 b2 b3 b4 b5 b6 b7) = Char b0 b1 b2 b3 b4 b b6 b7"

definition upper_char :: "char \<Rightarrow> char" where
  "upper_char c = (if is_lower c then set_case_bit False c else c)"

definition lower_char :: "char \<Rightarrow> char" where
  "lower_char c = (if is_upper c then set_case_bit True c else c)"

definition js_toUpperCase :: "string \<Rightarrow> string" where
  "js_toUpperCase s = map upper_char s"


text \<open>\<open>trim()\<close> removes white space and line terminators (tab, LF, VT, FF, CR, space,
  no-break space) at both ends.\<close>

definition js_ws :: "char \<Rightarrow> bool" where
  "js_ws c = ((of_char c :: nat) \<in> {9, 10, 11, 12, 13, 32, 160})"

definition js_trim :: "string \<Rightarrow> string" where
  "js_trim s = rev (dropWhile js_ws (rev (dropWhile js_ws s)))"

text \<open>
  Regular expressions with the \<open>i\<close> flag, for patterns made of literal pieces and
  \<open>.*\<close>. \<open>ci_prefix pat s\<close> is what follows \<open>pat\<close> when \<open>s\<close> starts with it, letters
  compared without case; \<open>find_ci pat s\<close> lists what follows each occurrence of \<open>pat\<close>
  in \<open>s\<close>; \<open>gap_ci pat s\<close> lists what follows each match of \<open>.*pat\<close> at the start of
  \<open>s\<close>, where \<open>.\<close> matches no line terminator.
\<close>

fun ci_prefix :: "string \<Rightarrow> string \<Rightarrow> string option" where
  "ci_prefix [] s = Some s"
| "ci_prefix (p # ps) [] = None"
| "ci_prefix (p # ps) (c # cs) =
     (if lower_char p = lower_char c then ci_prefix ps cs else None)"

definition line_terminator :: "char \<Rightarrow> bool" where
  "line_terminator c = ((of_char c :: nat) \<in> {10, 13})"

fun find_ci :: "string \<Rightarrow> string \<Rightarrow> string list" where
  "find_ci pat [] = (case ci_prefix pat [] of Some r \<Rightarrow> [r] | None \<Rightarrow> [])"
| "find_ci pat (c # cs) =
     (case ci_prefix pat (c # cs) of Some r \<Rightarrow> [r] | None \<Rightarrow> []) @ find_ci pat cs"

fun gap_ci :: "string \<Rightarrow> string \<Rightarrow> string list" where
  "gap_ci pat [] = (case ci_prefix pat [] of Some r \<Rightarrow> [r] | None \<Rightarrow> [])"
| "gap_ci pat (c # cs) =
     (case ci_prefix pat (c # cs) of Some r \<Rightarrow> [r] | None \<Rightarrow> []) @
     (if line_terminator c then [] else gap_ci pat cs)"

text \<open>\<open>/pat/i.test(s)\<close> for a pattern of literal characters.\<close>

definition contains_ci :: "string \<Rightarrow> string \<Rightarrow> bool" where
  "contains_ci pat s = (find_ci pat s \<noteq> [])"

text \<open>\<open>m || fallback\<close> for a message string \<open>m\<close>.\<close>

definition message_or :: "string \<Rightarrow> string \<Rightarrow> string" where
  "message_or m fallback = (if m = [] then fallback else m)"

subsection \<open>Coercions\<close>

text \<open>
  \<open>String(v)\<close>. A parsed object has no callable \<open>toString\<close> of its own: one without an
  own \<open>toString\<close> key inherits \<open>Object.prototype.toString\<close> and gives
  \<open>[object Object]\<close>; one with an own \<open>toString\<close> key (a JSON value, never callable)
  falls through to \<open>valueOf\<close>, which returns the object, and the conversion throws a
  TypeError (\<open>None\<close>). An array is joined with commas, null and undefined elements giving
  the empty string. The decimal text of a number is a parameter, \<open>ns\<close>.
\<close>

datatype js_error = TypeError

fun join_comma :: "string list \<Rightarrow> string" where
  "join_comma [] = []"
| "join_comma [s] = s"
| "join_comma (s # t # ss) = s @ '','' @ join_comma (t # ss)"

fun js_String :: "(jsnum \<Rightarrow> string) \<Rightarrow> jsval \<Rightarrow> string option" where
  "js_String ns JUndefined = Some ''undefined''"
| "js_String ns JNull = Some ''null''"
| "js_String ns (JBool b) = Some (if b then ''true'' else ''false'')"
| "js_String ns (JNum n) = Some (ns n)"
| "js_String ns (JStr s) = Some s"
| "js_String ns (JArr xs) =
     map_option join_comma
       (those (map (\<lambda>x. if x = JNull \<or> x = JUndefined then Some [] else js_String ns x) xs))"
| "js_String ns (JObj kvs) =
     (if ''toString'' \<in> fst ` set kvs then None else Some ''[object Object]'')"




section \<open>Requests and responses\<close>

text \<open>
  \<open>Response c j\<close> is \<open>res.status(c).json(j)\<close> (\<open>res.json(j)\<close> has status 200).
  \<open>Unhandled\<close> is an exception that leaves the handler: it is thrown outside every
  \<open>try\<close> block of the \<open>async\<close> handler, so no response is written by the route.
  A timestamp is a number of milliseconds.
\<close>

type_synonym timestamp = nat

datatype http_result = Response nat jsval | Unhandled

record request =
  body :: jsval
  param_id :: jsval
  rawBody :: string
  headers :: "(string \<times> string) list"

text \<open>The value returned by \<open>verifyVendorSignature(req)\<close>: \<open>{ ok, error }\<close>.\<close>

record sig_result =
  ok :: bool
  error :: jsval

definition failure :: "jsval \<Rightarrow> jsval" where
  "failure msg = JObj [(''success'', JBool False), (''error'', msg)]"

definition pickupId_required :: jsval where
  "pickupId_required = JStr
     ''pickupId is required (accepted keys: pickupId, pickup_id, request_id, requestId)''"

definition vendor_required :: jsval where
  "vendor_required = JStr ''vendor_id (or assignedVendorRef) is required''"

text \<open>
  What every router gets from outside the sources: the decimal text of a number and the
  number read from a string (the parameters of \<open>String\<close> and \<open>Number\<close>), the clock
  (\<open>new Date()\<close>) and the ISO-8601 text of a time (\<open>toISOString()\<close>), and whether
  \<open>createServiceClient()\<close> throws (with the message of the error thrown).
\<close>

record collaborators =
  num_str :: "jsnum \<Rightarrow> string"
  str_num :: "string \<Rightarrow> jsnum"
  clock :: timestamp
  toISOString :: "timestamp \<Rightarrow> string"
  service_client_error :: "jsval option"

section \<open>Vendor callbacks: routes/vendor.js\<close>

text \<open>
  The dispatcher module (\<open>services/dispatcher\<close>) and the signature check
  (\<open>vendor/security\<close>) are required by the routers; the routes below take them as
  parameters. A dispatcher operation runs on a state \<open>'s\<close>; it leaves a new state
  and either throws (\<open>Inl\<close>) or returns a JavaScript value (\<open>Inr\<close>).
\<close>

type_synonym 's dispatcher_op = "jsval \<Rightarrow> jsval \<Rightarrow> 's \<Rightarrow> (string + jsval) \<times> 's"

text \<open>\<open>body.pickupId || body.pickup_id || body.request_id || body.requestId\<close>\<close>

definition read_pickupId :: "jsval \<Rightarrow> jsval" where
  "read_pickupId b =
     js_or (js_or (js_or (js_get b ''pickupId'') (js_get b ''pickup_id''))
                  (js_get b ''request_id''))
           (js_get b ''requestId'')"

text \<open>\<open>assignedVendorRef || vendor_id || vendorId\<close>\<close>

definition read_vendorRef :: "jsval \<Rightarrow> jsval" where
  "read_vendorRef b =
     js_or (js_or (js_get b ''assignedVendorRef'') (js_get b ''vendor_id''))
           (js_get b ''vendorId'')"

text \<open>\<open>router.post('/accept', ...)\<close> of routes/vendor.js.\<close>

definition accept ::
  "(request \<Rightarrow> sig_result) \<Rightarrow> 's dispatcher_op \<Rightarrow> request \<Rightarrow> 's \<Rightarrow> http_result \<times> 's" where
  "accept verifyVendorSignature confirmVendorAcceptance req st =
     (let sig = verifyVendorSignature req in
      if \<not> ok sig then (Response 401 (failure (error sig)), st)
      else
        let b = js_or (body req) (JObj []);
            pickupId = read_pickupId b
        in if \<not> truthy pickupId then (Response 400 (failure pickupId_required), st)
           else
             let vendorRef = read_vendorRef b
             in if \<not> truthy vendorRef then (Response 400 (failure vendor_required), st)
                else
                  (case confirmVendorAcceptance pickupId vendorRef st of
                     (Inl e, st') \<Rightarrow> (Response 500 (failure (JStr ''Vendor accept failed'')), st')
                   | (Inr result, st') \<Rightarrow>
                       if \<not> truthy result
                       then (Response 409 (failure (JStr
                          ''Pickup not found, not assigned to this vendor, or already assigned'')),
                          st')
                       else (Response 200
                          (JObj [(''success'', JBool True), (''pickup'', result)]), st')))"

text \<open>\<open>router.post('/reject', ...)\<close> of routes/vendor.js.\<close>

definition reject ::
  "(request \<Rightarrow> sig_result) \<Rightarrow> 's dispatcher_op \<Rightarrow> request \<Rightarrow> 's \<Rightarrow> http_result \<times> 's" where
  "reject verifyVendorSignature handleVendorRejection req st =
     (let sig = verifyVendorSignature req in
      if \<not> ok sig then (Response 401 (failure (error sig)), st)
      else
        let b = js_or (body req) (JObj []);
            pickupId = read_pickupId b
        in if \<not> truthy pickupId then (Response 400 (failure pickupId_required), st)
           else
             let vendorRef = read_vendorRef b
             in if \<not> truthy vendorRef then (Response 400 (failure vendor_required), st)
                else
                  (case handleVendorRejection pickupId vendorRef st of
                     (Inl e, st') \<Rightarrow> (Response 500 (failure (JStr ''Vendor reject failed'')), st')
                   | (Inr result, st') \<Rightarrow>
                       (Response 200
                          (JObj [(''success'', JBool True),
                                 (''result'', js_or result (JObj [(''ignored'', JBool True)]))]),
                        st')))"

text \<open>
  \<open>router.post('/accepted', ...)\<close> of routes/pickups.js (src/unnamed/part_002): it reads
  only \<open>assignedVendorRef\<close> and passes it on unchecked.
\<close>

definition accepted ::
  "(request \<Rightarrow> sig_result) \<Rightarrow> 's dispatcher_op \<Rightarrow> request \<Rightarrow> 's \<Rightarrow> http_result \<times> 's" where
  "accepted verifyVendorSignature confirmVendorAcceptance req st =
     (let sig = verifyVendorSignature req in
      if \<not> ok sig then (Response 401 (failure (error sig)), st)
      else
        let b = js_or (body req) (JObj []);
            pickupId = read_pickupId b;
            assignedVendorRef = js_get b ''assignedVendorRef''
        in if \<not> truthy pickupId then (Response 400 (failure pickupId_required), st)
           else
             (case confirmVendorAcceptance pickupId assignedVendorRef st of
                (Inl e, st') \<Rightarrow>
                  (Response 500 (failure (JStr ''Pickup accepted notify failed'')), st')
              | (Inr result, st') \<Rightarrow>
                  if \<not> truthy result
                  then (Response 409 (failure (JStr ''Could not confirm acceptance'')), st')
                  else (Response 200
                     (JObj [(''success'', JBool True), (''pickup'', result)]), st')))"

text \<open>
  What \<open>/accept\<close> and \<open>/reject\<close> answer once the dispatcher has been called, from
  the outcome of that call.
\<close>

definition accept_answer :: "(string + jsval) \<times> 's \<Rightarrow> http_result \<times> 's" where
  "accept_answer outcome =
     (case outcome of
        (Inl e, st') \<Rightarrow> (Response 500 (failure (JStr ''Vendor accept failed'')), st')
      | (Inr result, st') \<Rightarrow>
          if truthy result
          then (Response 200 (JObj [(''success'', JBool True), (''pickup'', result)]), st')
          else (Response 409 (failure (JStr
                  ''Pickup not found, not assigned to this vendor, or already assigned'')), st'))"

definition reject_answer :: "(string + jsval) \<times> 's \<Rightarrow> http_result \<times> 's" where
  "reject_answer outcome =
     (case outcome of
        (Inl e, st') \<Rightarrow> (Response 500 (failure (JStr ''Vendor reject failed'')), st')
      | (Inr result, st') \<Rightarrow>
          (Response 200
             (JObj [(''success'', JBool True),
                    (''result'', js_or result (JObj [(''ignored'', JBool True)]))]), st'))"

section \<open>The persisted pickup record and the dispatch state\<close>

text \<open>
  The \<open>pickups\<close> table as the routers and db/client.js use it: \<open>status\<close> is the
  \<open>pickup_status\<close> enum, the assignment columns and \<open>cancelled_at\<close> are nullable. An \<open>update\<close> touches only the columns it names.
\<close>

datatype pickup_status =
    REQUESTED | FINDING_VENDOR | ASSIGNED | ON_THE_WAY | COMPLETED
  | NO_VENDOR_AVAILABLE | CANCELLED

record pickup_row =
  status :: pickup_status
  assigned_vendor_ref :: "string option"
  assignment_expires_at :: "timestamp option"
  cancelled_at :: "timestamp option"
  completed_at :: "timestamp option"

text \<open>
  Modelled from the spec: the process-local DispatchState of services/dispatcher (the map
  \<open>dispatcher._internal.dispatchState\<close> that routes/pickups.js reads): per pickup the
  active candidate, the pending timer handle and the generation counter.
\<close>

record dispatch_entry =
  vendorRef :: string
  timer :: "nat option"
  generation :: nat

datatype rejection_reason = ExplicitReject | Timeout | SendFailure

text \<open>
  The state the engine and the customer routes act on: the persisted table, the
  in-memory dispatch map, the rejection ledger, the timer handles given to
  \<open>clearTimeout\<close>, and the pickups for which \<open>dispatchPickup\<close> was started in the
  background.
\<close>

record engine =
  pickups :: "string \<rightharpoonup> pickup_row"
  dispatchState :: "string \<rightharpoonup> dispatch_entry"
  rejections :: "(string \<times> string \<times> rejection_reason \<times> timestamp) list"
  cleared_timers :: "nat list"
  dispatch_started :: "jsval list"

fun status_label :: "pickup_status \<Rightarrow> string" where
  "status_label REQUESTED = ''REQUESTED''"
| "status_label FINDING_VENDOR = ''FINDING_VENDOR''"
| "status_label ASSIGNED = ''ASSIGNED''"
| "status_label ON_THE_WAY = ''ON_THE_WAY''"
| "status_label COMPLETED = ''COMPLETED''"
| "status_label NO_VENDOR_AVAILABLE = ''NO_VENDOR_AVAILABLE''"
| "status_label CANCELLED = ''CANCELLED''"

definition json_opt_str :: "string option \<Rightarrow> jsval" where
  "json_opt_str x = (case x of Some s \<Rightarrow> JStr s | None \<Rightarrow> JNull)"

definition json_opt_time :: "timestamp option \<Rightarrow> jsval" where
  "json_opt_time x = (case x of Some t \<Rightarrow> JNum (JFin (of_nat t)) | None \<Rightarrow> JNull)"

text \<open>
  Modelled from the spec: the pickup projection returned after a successful transition
  (the columns of the record that this model keeps).
\<close>

definition projection :: "string \<Rightarrow> pickup_row \<Rightarrow> jsval" where
  "projection pid row = JObj
     [(''id'', JStr pid),
      (''status'', JStr (status_label (status row))),
      (''assignedVendorRef'', json_opt_str (assigned_vendor_ref row)),
      (''assignmentExpiresAt'', json_opt_time (assignment_expires_at row))]"

text \<open>\<open>if (state?.timer) clearTimeout(state.timer)\<close> for the entry of one pickup.\<close>

definition clear_timer_of :: "dispatch_entry option \<Rightarrow> nat list \<Rightarrow> nat list" where
  "clear_timer_of entry cleared =
     (case entry of
        Some d \<Rightarrow> (case timer d of Some h \<Rightarrow> cleared @ [h] | None \<Rightarrow> cleared)
      | None \<Rightarrow> cleared)"

section \<open>The Acceptance Arbiter\<close>

text \<open>
  Modelled from the spec: the condition of the single conditional transition of
  \<open>confirmVendorAcceptance\<close> (services/dispatcher is not among the sources):
  status == FINDING_VENDOR AND assignedVendorRef == vendorRef AND now < assignmentExpiresAt.
\<close>

definition accept_condition :: "timestamp \<Rightarrow> jsval \<Rightarrow> pickup_row \<Rightarrow> bool" where
  "accept_condition now v row =
     (status row = FINDING_VENDOR \<and>
      (case assigned_vendor_ref row of Some a \<Rightarrow> v = JStr a | None \<Rightarrow> False) \<and>
      (case assignment_expires_at row of Some e \<Rightarrow> now < e | None \<Rightarrow> False))"

text \<open>
  Modelled from the spec: \<open>confirmVendorAcceptance(pickupId, vendorRef)\<close> of
  services/dispatcher, which is not among the sources. The check and the write are one
  atomic step on the persisted record. On success: status becomes ASSIGNED,
  \<open>assignmentExpiresAt\<close> is cleared, the in-memory timer is cancelled, the DispatchState
  is discarded and the updated projection is returned. On failure the conflict signal
  (\<open>null\<close>, which the route tests with \<open>!result\<close>) is returned and nothing is written.
\<close>

definition confirmVendorAcceptance :: "timestamp \<Rightarrow> engine dispatcher_op" where
  "confirmVendorAcceptance now pickupId v st =
     (case pickupId of
        JStr pid \<Rightarrow>
          (case pickups st pid of
             Some row \<Rightarrow>
               if accept_condition now v row
               then
                 let row' = row\<lparr>status := ASSIGNED, assignment_expires_at := None\<rparr>
                 in (Inr (projection pid row'),
                     st\<lparr>pickups := (pickups st)(pid \<mapsto> row'),
                        cleared_timers := clear_timer_of (dispatchState st pid) (cleared_timers st),
                        dispatchState := (dispatchState st)(pid := None)\<rparr>)
               else (Inr JNull, st)
           | None \<Rightarrow> (Inr JNull, st))
      | _ \<Rightarrow> (Inr JNull, st))"

definition ignored_marker :: jsval where
  "ignored_marker = JObj [(''ignored'', JBool True)]"

text \<open>
  Modelled from the spec: \<open>handleVendorRejection(pickupId, vendorRef)\<close> of
  services/dispatcher, which is not among the sources. A rejection from a vendor that is
  not the pickup's current \<open>assignedVendorRef\<close> is ignored. On a match the rejection
  is recorded with reason explicit-reject, the current timer is invalidated (cleared, and
  the generation counter bumped) and \<open>dispatch(pickupId)\<close> is called synchronously;
  \<open>dispatch\<close>, the Offer Coordinator, is a parameter.
\<close>

definition handleVendorRejection ::
  "(string \<Rightarrow> engine \<Rightarrow> (string + jsval) \<times> engine) \<Rightarrow> timestamp \<Rightarrow> engine dispatcher_op" where
  "handleVendorRejection dispatch now pickupId v st =
     (case pickupId of
        JStr pid \<Rightarrow>
          (case pickups st pid of
             Some row \<Rightarrow>
               (case assigned_vendor_ref row of
                  Some a \<Rightarrow>
                    if v = JStr a
                    then dispatch pid
                      (st\<lparr>rejections := rejections st @ [(pid, a, ExplicitReject, now)],
                          cleared_timers := clear_timer_of (dispatchState st pid) (cleared_timers st),
                          dispatchState :=
                            (case dispatchState st pid of
                               Some d \<Rightarrow> (dispatchState st)
                                 (pid \<mapsto> d\<lparr>timer := None, generation := generation d + 1\<rparr>)
                             | None \<Rightarrow> dispatchState st)\<rparr>)
                    else (Inr ignored_marker, st)
                | None \<Rightarrow> (Inr ignored_marker, st))
           | None \<Rightarrow> (Inr ignored_marker, st))
      | _ \<Rightarrow> (Inr ignored_marker, st))"

text \<open>A call has won when it returned a truthy value; the conflict signal is \<open>null\<close>.\<close>

definition won :: "string + jsval \<Rightarrow> bool" where
  "won r = (case r of Inr x \<Rightarrow> truthy x | Inl e \<Rightarrow> False)"

section \<open>Customer routes: routes/pickups.js\<close>

text \<open>
  What the customer routes get besides: the bearer token read from the request, whether
  building the client for that token throws (and the thrown message), the error of the
  ownership query and the rows that row-level security lets a token see, whether the
  store applies an update it is sent (the routes do not look at the result of their
  \<open>update\<close>), and the \<open>create_pickup\<close> RPC with its effect on the store.
\<close>

record customer_world = collaborators +
  getBearerToken :: "request \<Rightarrow> jsval"
  anon_client_error :: "jsval \<Rightarrow> jsval option"
  select_error :: "string option"
  rls_visible :: "jsval \<Rightarrow> string \<Rightarrow> bool"
  update_applied :: bool
  create_pickup :: "jsval \<Rightarrow> engine \<Rightarrow> (string + jsval) \<times> engine"

text \<open>\<open>.update(f).eq('id', id)\<close>: the row with that id, if there is one, gets the new columns.\<close>

definition update_row ::
  "string \<Rightarrow> (pickup_row \<Rightarrow> pickup_row) \<Rightarrow> (string \<rightharpoonup> pickup_row) \<Rightarrow> (string \<rightharpoonup> pickup_row)" where
  "update_row pid f tbl = (case tbl pid of Some r \<Rightarrow> tbl(pid \<mapsto> f r) | None \<Rightarrow> tbl)"

text \<open>
  The block shared by find-vendor and cancel:
  \<open>if (state?.timer) clearTimeout(state.timer); dispatchState.delete(id)\<close>.
\<close>

definition drop_dispatch_state :: "string \<Rightarrow> engine \<Rightarrow> engine" where
  "drop_dispatch_state pid st =
     st\<lparr>cleared_timers := clear_timer_of (dispatchState st pid) (cleared_timers st),
        dispatchState := (dispatchState st)(pid := None)\<rparr>"

definition missing_token :: http_result where
  "missing_token = Response 401 (failure (JStr ''Missing Authorization Bearer token''))"

text \<open>
  \<open>router.post('/:id/find-vendor', ...)\<close>. The status read from the row is one of the
  enum labels, so \<open>String(owned.status || '')\<close> is the label. The whole handler is inside
  one \<open>try\<close>: every throw is answered with 500.
\<close>

definition find_vendor :: "customer_world \<Rightarrow> request \<Rightarrow> engine \<Rightarrow> http_result \<times> engine" where
  "find_vendor w req st =
     (let jwt = getBearerToken w req;
          fault = Response 500 (failure (JStr ''Could not restart vendor dispatch''))
      in
      if \<not> truthy jwt then (missing_token, st)
      else
        (case js_String (num_str w) (js_or (param_id req) (JStr [])) of
           None \<Rightarrow> (fault, st)
         | Some raw \<Rightarrow>
             let pid = js_trim raw in
             if pid = [] then (Response 400 (failure (JStr ''id is required'')), st)
             else if anon_client_error w jwt \<noteq> None then (fault, st)
             else
               (case select_error w of
                  Some m \<Rightarrow>
                    (Response 400 (failure (JStr (message_or m ''Could not verify pickup''))), st)
                | None \<Rightarrow>
                    (case (if rls_visible w jwt pid then pickups st pid else None) of
                       None \<Rightarrow> (Response 404 (failure (JStr ''pickup not found'')), st)
                     | Some owned \<Rightarrow>
                         let label = js_toUpperCase (status_label (status owned)) in
                         if label = ''ASSIGNED'' \<or> label = ''CANCELLED'' \<or> label = ''COMPLETED''
                         then (Response 409 (failure (JStr
                                 (''Cannot retry vendor assignment for status '' @
                                    status_label (status owned)))), st)
                         else if service_client_error w \<noteq> None then (fault, st)
                         else
                           let st1 = (if update_applied w
                                      then st\<lparr>pickups := update_row pid
                                             (\<lambda>r. r\<lparr>status := FINDING_VENDOR,
                                                     assigned_vendor_ref := None,
                                                     assignment_expires_at := None,
                                                     cancelled_at := None\<rparr>) (pickups st)\<rparr>
                                      else st);
                               st2 = drop_dispatch_state pid st1;
                               st3 = st2\<lparr>dispatch_started := dispatch_started st2 @ [JStr pid]\<rparr>
                           in (Response 200
                                 (JObj [(''success'', JBool True), (''pickupId'', JStr pid),
                                        (''status'', JStr ''FINDING_VENDOR'')]), st3)))))"


text \<open>\<open>!v || String(v).trim() === ''\<close>; \<open>None\<close> when the conversion throws.\<close>

definition blank :: "(jsnum \<Rightarrow> string) \<Rightarrow> jsval \<Rightarrow> bool option" where
  "blank ns v =
     (if \<not> truthy v then Some True else map_option (\<lambda>s. js_trim s = []) (js_String ns v))"

definition isArray :: "jsval \<Rightarrow> bool" where
  "isArray v = (case v of JArr xs \<Rightarrow> True | _ \<Rightarrow> False)"

definition array_length :: "jsval \<Rightarrow> nat" where
  "array_length v = (case v of JArr xs \<Rightarrow> length xs | _ \<Rightarrow> 0)"

text \<open>\<open>validatePickupBody(body)\<close>: an error message, or null (\<open>None\<close>) if valid; \<open>Inl\<close>
  when a conversion throws.\<close>

definition validatePickupBody :: "(jsnum \<Rightarrow> string) \<Rightarrow> jsval \<Rightarrow> js_error + string option" where
  "validatePickupBody ns b =
     (if \<not> truthy b then Inr (Some ''Request body is missing.'')
      else if \<not> isArray (js_get b ''items'') \<or> array_length (js_get b ''items'') = 0
      then Inr (Some ''items is required (array of { scrapTypeId, estimatedQuantity }).'')
      else
        (case blank ns (js_get b ''address'') of
           None \<Rightarrow> Inl TypeError
         | Some True \<Rightarrow> Inr (Some ''address is required.'')
         | Some False \<Rightarrow>
             (case blank ns (js_get b ''timeSlot'') of
                None \<Rightarrow> Inl TypeError
              | Some True \<Rightarrow> Inr (Some ''timeSlot is required.'')
              | Some False \<Rightarrow>
                  if \<not> js_nullish (js_get b ''latitude'') \<and> \<not> typeof_number (js_get b ''latitude'')
                  then Inr (Some ''latitude must be a number.'')
                  else if \<not> js_nullish (js_get b ''longitude'') \<and>
                          \<not> typeof_number (js_get b ''longitude'')
                  then Inr (Some ''longitude must be a number.'')
                  else Inr None)))"

text \<open>The argument object of \<open>supabase.rpc('create_pickup', ...)\<close>.\<close>

definition create_pickup_args :: "(jsnum \<Rightarrow> string) \<Rightarrow> jsval \<Rightarrow> jsval option" where
  "create_pickup_args ns b =
     (case js_String ns (js_get b ''address'') of
        None \<Rightarrow> None
      | Some a \<Rightarrow>
          (case js_String ns (js_get b ''timeSlot'') of
             None \<Rightarrow> None
           | Some t \<Rightarrow> Some (JObj
               [(''p_address'', JStr (js_trim a)),
                (''p_latitude'', js_coalesce (js_get b ''latitude'') JNull),
                (''p_longitude'', js_coalesce (js_get b ''longitude'') JNull),
                (''p_time_slot'', JStr (js_trim t)),
                (''p_items'', js_get b ''items'')])))"

text \<open>
  The \<open>try\<close> block of \<open>router.post('/', ...)\<close>, entered once the body is valid. After a
  successful RPC the pickup id is written to the log inside a template literal, a string
  conversion that can throw (and is then answered with 500 by the \<open>catch\<close>); then the
  dispatch is started in the background for a truthy pickup id.
\<close>

definition create_validated :: "customer_world \<Rightarrow> request \<Rightarrow> engine \<Rightarrow> http_result \<times> engine" where
  "create_validated w req st =
     (let jwt = getBearerToken w req in
      if \<not> truthy jwt then (missing_token, st)
      else
        (case anon_client_error w jwt of
           Some m \<Rightarrow>
             (Response 500
                (failure (js_or m (JStr ''Supabase is not configured on server''))), st)
         | None \<Rightarrow>
             (case create_pickup_args (num_str w) (body req) of
                None \<Rightarrow> (Response 500 (failure (JStr ''Could not create pickup'')), st)
              | Some args \<Rightarrow>
                  (case create_pickup w args st of
                     (Inl m, st1) \<Rightarrow>
                       let msg = message_or m ''Could not create pickup'' in
                       if contains_ci ''function create_pickup'' msg \<or>
                          contains_ci ''schema cache'' msg
                       then (Response 501 (failure (JStr
      ''Missing RPC create_pickup. Apply the Supabase SQL migration for RLS + RPC, then retry.'')),
                             st1)
                       else (Response 400 (failure (JStr msg)), st1)
                   | (Inr pickupId, st1) \<Rightarrow>
                       (case js_String (num_str w) pickupId of
                          None \<Rightarrow>
                            (Response 500 (failure (JStr ''Could not create pickup'')), st1)
                        | Some logged \<Rightarrow>
                            (Response 201
                               (JObj [(''success'', JBool True), (''pickupId'', pickupId)]),
                             if truthy pickupId
                             then st1\<lparr>dispatch_started := dispatch_started st1 @ [pickupId]\<rparr>
                             else st1))))))"

text \<open>
  \<open>router.post('/', ...)\<close>: \<open>validatePickupBody(req.body)\<close> runs before the \<open>try\<close>
  block, so a throw in it leaves the handler; a truthy error message is answered with 400.
\<close>

definition create :: "customer_world \<Rightarrow> request \<Rightarrow> engine \<Rightarrow> http_result \<times> engine" where
  "create w req st =
     (case validatePickupBody (num_str w) (body req) of
        Inl e \<Rightarrow> (Unhandled, st)
      | Inr errorMessage \<Rightarrow>
          (case errorMessage of
             Some m \<Rightarrow>
               if m \<noteq> [] then (Response 400 (failure (JStr m)), st)
               else create_validated w req st
           | None \<Rightarrow> create_validated w req st))"

text \<open>
  A malformed creation body, in the words of the validation: no non-empty items array, an
  address or a time slot that is absent, falsy or a blank string, or a latitude or
  longitude that is given and is not a number.
\<close>

definition absent_or_blank :: "jsval \<Rightarrow> bool" where
  "absent_or_blank v = (case v of JStr s \<Rightarrow> js_trim s = [] | _ \<Rightarrow> \<not> truthy v)"

definition non_numeric :: "jsval \<Rightarrow> bool" where
  "non_numeric v = (\<not> js_nullish v \<and> \<not> typeof_number v)"

definition malformed :: "jsval \<Rightarrow> bool" where
  "malformed b =
     ((case js_get b ''items'' of JArr xs \<Rightarrow> xs = [] | _ \<Rightarrow> True) \<or>
      absent_or_blank (js_get b ''address'') \<or>
      absent_or_blank (js_get b ''timeSlot'') \<or>
      non_numeric (js_get b ''latitude'') \<or>
      non_numeric (js_get b ''longitude''))"

text \<open>The checks that find-vendor and cancel make before they read the status: a bearer
  token, a non-empty id, a client, a query without error, and a row the token may see.\<close>

definition gates :: "customer_world \<Rightarrow> request \<Rightarrow> string \<Rightarrow> bool" where
  "gates w req pid = (truthy (getBearerToken w req) \<and> pid \<noteq> [] \<and>
     anon_client_error w (getBearerToken w req) = None \<and> select_error w = None \<and>
     rls_visible w (getBearerToken w req) pid)"

section \<open>Admin rates: POST /api/admin/scrap-rates\<close>









section \<open>Vendor presence: POST /api/vendor/location\<close>

text \<open>
  The \<open>vendor_backends\<close> table under the two schemas the route writes: the preferred
  one keyed on \<open>vendor_id\<close> and the legacy one keyed on \<open>vendor_ref\<close>; the key column is
  unique, so each is a map from the key to the row.
\<close>

record presence =
  offer_url :: jsval
  updated_at :: timestamp

record preferred_row = presence +
  vendor_id :: string
  latitude :: jsval
  longitude :: jsval
  is_available :: bool

record legacy_row = presence +
  vendor_ref :: string
  last_latitude :: jsval
  last_longitude :: jsval
  active :: bool

record vendor_backends =
  preferred :: "string \<rightharpoonup> preferred_row"
  legacy :: "string \<rightharpoonup> legacy_row"

text \<open>What the route gets besides: the error message of each of its two upserts (an
  upsert that returns an error writes nothing), and the \<open>updated_at\<close> of the row that
  the successful upsert returns (\<open>data?.updated_at\<close>).\<close>

record vendor_world = collaborators +
  preferred_upsert_error :: "string option"
  legacy_upsert_error :: "string option"
  returned_updated_at :: jsval

text \<open>
  \<open>/column .*vendor_id.*does not exist|on conflict.*vendor_id|there is no unique or
  exclusion constraint/i.test(error.message || '')\<close>
\<close>

definition schema_mismatch :: "string \<Rightarrow> bool" where
  "schema_mismatch m =
     ((\<exists>r1 \<in> set (find_ci ''column '' m). \<exists>r2 \<in> set (gap_ci ''vendor_id'' r1).
          gap_ci ''does not exist'' r2 \<noteq> []) \<or>
      (\<exists>r \<in> set (find_ci ''on conflict'' m). gap_ci ''vendor_id'' r \<noteq> []) \<or>
      contains_ci ''there is no unique or exclusion constraint'' m)"

definition upsert_failed :: "string \<Rightarrow> jsval" where
  "upsert_failed m = failure (JStr (message_or m ''Could not upsert vendor location''))"

text \<open>\<open>res.json({ success: true, vendor_id: String(incomingVendorId),
  updated_at: data?.updated_at || now })\<close>, where \<open>now\<close> is the ISO-8601 text of the clock.\<close>

definition location_ok :: "vendor_world \<Rightarrow> string \<Rightarrow> timestamp \<Rightarrow> http_result" where
  "location_ok w vid now = Response 200 (JObj
     [(''success'', JBool True), (''vendor_id'', JStr vid),
      (''updated_at'', js_or (returned_updated_at w) (JStr (toISOString w now)))])"

text \<open>\<open>router.post('/location', ...)\<close> of routes/vendor.js.\<close>

definition location :: "vendor_world \<Rightarrow> request \<Rightarrow> vendor_backends \<Rightarrow> http_result \<times> vendor_backends" where
  "location w req st =
     (let b = js_or (body req) (JObj []);
          incomingVendorId =
            js_or (js_or (js_get b ''vendor_id'') (js_get b ''vendorId'')) (js_get b ''vendorRef'');
          lat = js_get b ''latitude'';
          lon = js_get b ''longitude'';
          fault = Response 500 (failure (JStr ''Vendor location failed''))
      in
      if \<not> truthy incomingVendorId
      then (Response 400 (failure (JStr ''vendor_id is required'')), st)
      else if \<not> typeof_number lat \<or> \<not> typeof_number lon
      then (Response 400 (failure (JStr ''latitude and longitude must be numbers'')), st)
      else if service_client_error w \<noteq> None then (fault, st)
      else
        let now = clock w;
            offerUrlFinal = js_or (js_or (js_get b ''offer_url'') (js_get b ''offerUrl'')) JNull
        in
        (case js_String (num_str w) incomingVendorId of
           None \<Rightarrow> (fault, st)
         | Some vid \<Rightarrow>
             let preferredRow =
                   \<lparr>offer_url = offerUrlFinal, updated_at = now, vendor_id = vid,
                    latitude = js_coalesce lat JNull, longitude = js_coalesce lon JNull,
                    is_available = True\<rparr>;
                 legacyRow =
                   \<lparr>offer_url = offerUrlFinal, updated_at = now, vendor_ref = vid,
                    last_latitude = js_coalesce lat JNull,
                    last_longitude = js_coalesce lon JNull, active = True\<rparr>
             in
             (case preferred_upsert_error w of
                None \<Rightarrow>
                  (location_ok w vid now, st\<lparr>preferred := (preferred st)(vid \<mapsto> preferredRow)\<rparr>)
              | Some m \<Rightarrow>
                  if schema_mismatch m
                  then
                    (case legacy_upsert_error w of
                       None \<Rightarrow>
                         (location_ok w vid now, st\<lparr>legacy := (legacy st)(vid \<mapsto> legacyRow)\<rparr>)
                     | Some m' \<Rightarrow> (Response 400 (upsert_failed m'), st))
                  else (Response 400 (upsert_failed m), st))))"

text \<open>\<open>vendor_id || vendorId || vendorRef\<close>, the identifier the route keys the row on.\<close>

definition incoming :: "jsval \<Rightarrow> jsval" where
  "incoming b =
     js_or (js_or (js_get b ''vendor_id'') (js_get b ''vendorId'')) (js_get b ''vendorRef'')"

section \<open>Concrete requests and states\<close>

text \<open>A signature check that accepts, a callback request with a given body, and a pickup
  offered to vendor V3 until time 100, with its timer armed.\<close>

definition ok_sig :: "request \<Rightarrow> sig_result" where
  "ok_sig req = \<lparr>ok = True, error = JUndefined\<rparr>"

definition callback :: "jsval \<Rightarrow> request" where
  "callback b = \<lparr>body = b, param_id = JUndefined, rawBody = [], headers = []\<rparr>"

definition customer_request :: "string \<Rightarrow> jsval \<Rightarrow> request" where
  "customer_request pid b = \<lparr>body = b, param_id = JStr pid, rawBody = [], headers = []\<rparr>"

definition offer_state :: engine where
  "offer_state =
     \<lparr>pickups = [''p1'' \<mapsto> \<lparr>status = FINDING_VENDOR, assigned_vendor_ref = Some ''V3'',
          assignment_expires_at = Some 100, cancelled_at = None, completed_at = None\<rparr>],
      dispatchState = [''p1'' \<mapsto> \<lparr>vendorRef = ''V3'', timer = Some 7, generation = 2\<rparr>],
      rejections = [], cleared_timers = [], dispatch_started = []\<rparr>"

definition assigned_state :: engine where
  "assigned_state =
     \<lparr>pickups = [''p1'' \<mapsto> \<lparr>status = ASSIGNED, assigned_vendor_ref = Some ''V3'',
          assignment_expires_at = None, cancelled_at = None, completed_at = None\<rparr>],
      dispatchState = Map.empty,
      rejections = [], cleared_timers = [7], dispatch_started = []\<rparr>"

text \<open>The spellings the vendor routes accept for the pickup and the vendor identifier.\<close>

definition pickup_aliases :: "string list" where
  "pickup_aliases = [''pickupId'', ''pickup_id'', ''request_id'', ''requestId'']"

definition vendor_aliases :: "string list" where
  "vendor_aliases = [''assignedVendorRef'', ''vendor_id'', ''vendorId'']"

text \<open>A dispatcher operation that only records the arguments of each call and returns
  the conflict signal; and an Offer Coordinator that does nothing.\<close>

definition recording :: "(jsval \<times> jsval) list dispatcher_op" where
  "recording p v calls = (Inr JNull, calls @ [(p, v)])"

definition idle_dispatch :: "string \<Rightarrow> engine \<Rightarrow> (string + jsval) \<times> engine" where
  "idle_dispatch pid st = (Inr JNull, st)"

text \<open>A world in which every collaborator of the customer routes works: every request
  carries a token, every row is visible to it, the store applies updates, and the RPC
  creates pickup p2 in status REQUESTED.\<close>

definition requested_row :: pickup_row where
  "requested_row = \<lparr>status = REQUESTED, assigned_vendor_ref = None,
      assignment_expires_at = None, cancelled_at = None, completed_at = None\<rparr>"

definition fair_world :: customer_world where
  "fair_world =
     \<lparr>num_str = (\<lambda>n. ''0''),
      str_num = (\<lambda>s. JNaN),
      clock = 50,
      toISOString = (\<lambda>t. ''1970-01-01T00:00:00.050Z''),
      service_client_error = None,
      getBearerToken = (\<lambda>req. JStr ''token''),
      anon_client_error = (\<lambda>jwt. None),
      select_error = None,
      rls_visible = (\<lambda>jwt pid. True),
      update_applied = True,
      create_pickup = (\<lambda>args st. (Inr (JStr ''p2''),
         st\<lparr>pickups := (pickups st)(''p2'' \<mapsto> requested_row)\<rparr>))\<rparr>"

text \<open>A pickup for which the candidates were exhausted.\<close>

definition exhausted_state :: engine where
  "exhausted_state =
     \<lparr>pickups = [''p1'' \<mapsto> \<lparr>status = NO_VENDOR_AVAILABLE, assigned_vendor_ref = None,
          assignment_expires_at = None, cancelled_at = None, completed_at = None\<rparr>],
      dispatchState = Map.empty,
      rejections = [], cleared_timers = [], dispatch_started = []\<rparr>"

text \<open>A creation body with items, no time slot, and an address object that has a
  \<open>toString\<close> key: \<open>{"items":[1],"address":{"toString":1}}\<close>.\<close>

definition poisoned_body :: jsval where
  "poisoned_body = JObj [(''items'', JArr [JNum (JFin 1)]),
                         (''address'', JObj [(''toString'', JNum (JFin 1))])]"





text \<open>A store under the legacy schema, which answers the preferred upsert with the
  error of a missing column, and a location update of vendor V7.\<close>

definition legacy_store :: vendor_world where
  "legacy_store =
     \<lparr>num_str = (\<lambda>n. ''0''), str_num = (\<lambda>s. JNaN), clock = 50,
      toISOString = (\<lambda>t. ''1970-01-01T00:00:00.050Z''),
      service_client_error = None,
      preferred_upsert_error = Some ''Column vendor_id of relation vendor_backends does not exist'',
      legacy_upsert_error = None,
      returned_updated_at = JUndefined\<rparr>"

definition no_vendors :: vendor_backends where
  "no_vendors = \<lparr>preferred = Map.empty, legacy = Map.empty\<rparr>"

definition location_update :: request where
  "location_update = callback (JObj
     [(''vendorId'', JStr ''V7''), (''latitude'', JNum (JFin 12)), (''longitude'', JNum (JFin 77))])"

section \<open>The Acceptance Arbiter: conditional acceptance\<close>

lemma confirm_cases:
  "confirmVendorAcceptance now p v st = (r, st') \<Longrightarrow>
     (r = Inr JNull \<and> st' = st) \<or>
     (\<exists>pid row. p = JStr pid \<and> pickups st pid = Some row \<and> accept_condition now v row \<and>
        r = Inr (projection pid (row\<lparr>status := ASSIGNED, assignment_expires_at := None\<rparr>)) \<and>
        pickups st' pid = Some (row\<lparr>status := ASSIGNED, assignment_expires_at := None\<rparr>))"
  by (auto simp: confirmVendorAcceptance_def Let_def split: jsval.splits option.splits if_splits)

lemma won_projection: "won (Inr (projection pid row))"
  by (simp add: won_def projection_def)

lemma not_won_null: "\<not> won (Inr JNull)"
  by (simp add: won_def)

lemma confirm_late:
  "confirmVendorAcceptance 100 (JStr ''p1'') (JStr ''V3'') offer_state = (Inr JNull, offer_state)"
  by (simp add: confirmVendorAcceptance_def offer_state_def accept_condition_def)

lemma confirm_in_time:
  "confirmVendorAcceptance 99 (JStr ''p1'') (JStr ''V3'') offer_state =
    (Inr (projection ''p1'' \<lparr>status = ASSIGNED, assigned_vendor_ref = Some ''V3'',
        assignment_expires_at = None, cancelled_at = None, completed_at = None\<rparr>), assigned_state)"
  by (simp add: confirmVendorAcceptance_def offer_state_def assigned_state_def accept_condition_def
      Let_def clear_timer_of_def)

text \<open>
  C1. A call of \<open>confirmVendorAcceptance\<close> wins only if the pickup exists with status
  FINDING_VENDOR, its \<open>assignedVendorRef\<close> is the calling vendor and the call arrives
  strictly before \<open>assignmentExpiresAt\<close>; a call at or after the expiry does not win;
  a call that does not win returns the conflict signal and leaves the state as it was, and
  \<open>POST /api/vendor/accept\<close> answers it with 409.
\<close>

theorem confirm_acceptance_conditional:
  assumes "confirmVendorAcceptance now p v st = (r, st')"
  shows "(won r \<longrightarrow>
            (\<exists>pid row a e. p = JStr pid \<and> pickups st pid = Some row \<and>
               status row = FINDING_VENDOR \<and> assigned_vendor_ref row = Some a \<and> v = JStr a \<and>
               assignment_expires_at row = Some e \<and> now < e))
       \<and> (\<forall>pid row e. p = JStr pid \<and> pickups st pid = Some row \<and>
               assignment_expires_at row = Some e \<and> e \<le> now \<longrightarrow> \<not> won r)
       \<and> (\<not> won r \<longrightarrow> r = Inr JNull \<and> st' = st \<and>
            (ok (verify req) \<and> read_pickupId (js_or (body req) (JObj [])) = p \<and> truthy p \<and>
               read_vendorRef (js_or (body req) (JObj [])) = v \<and> truthy v \<longrightarrow>
               accept verify (confirmVendorAcceptance now) req st =
                  (Response 409 (failure (JStr
                     ''Pickup not found, not assigned to this vendor, or already assigned'')), st)))"
  using confirm_cases[OF assms]
  by (auto simp: not_won_null won_projection accept_condition_def accept_def Let_def assms
      split: option.splits)

theorem confirm_acceptance_conditional_witness:
  "accept ok_sig (confirmVendorAcceptance 100)
      (callback (JObj [(''pickup_id'', JStr ''p1''), (''vendor_id'', JStr ''V3'')])) offer_state =
     (Response 409 (failure (JStr
        ''Pickup not found, not assigned to this vendor, or already assigned'')), offer_state)
   \<and> won (fst (confirmVendorAcceptance 99 (JStr ''p1'') (JStr ''V3'') offer_state))
   \<and> (\<exists>row. pickups offer_state ''p1'' = Some row \<and> status row = FINDING_VENDOR \<and>
          assigned_vendor_ref row = Some ''V3'' \<and> assignment_expires_at row = Some 100)"
proof -
  let ?req = "callback (JObj [(''pickup_id'', JStr ''p1''), (''vendor_id'', JStr ''V3'')])"
  have rd: "ok (ok_sig ?req)" "read_pickupId (js_or (body ?req) (JObj [])) = JStr ''p1''"
    "read_vendorRef (js_or (body ?req) (JObj [])) = JStr ''V3''"
    by (simp_all add: ok_sig_def callback_def read_pickupId_def read_vendorRef_def js_or_def
        js_get_def)
  have late: "\<not> won (Inr JNull)" by (simp add: won_def)
  from confirm_acceptance_conditional[OF confirm_late, of ok_sig ?req] rd late
  have a: "accept ok_sig (confirmVendorAcceptance 100) ?req offer_state =
     (Response 409 (failure (JStr
        ''Pickup not found, not assigned to this vendor, or already assigned'')), offer_state)"
    by simp
  have b: "won (fst (confirmVendorAcceptance 99 (JStr ''p1'') (JStr ''V3'') offer_state))"
    by (simp add: confirm_in_time won_projection)
  from confirm_acceptance_conditional[OF confirm_in_time] b
  have c: "\<exists>row. pickups offer_state ''p1'' = Some row \<and> status row = FINDING_VENDOR \<and>
          assigned_vendor_ref row = Some ''V3'' \<and> assignment_expires_at row = Some 100"
    by (simp add: confirm_in_time offer_state_def)
  show ?thesis using a b c by simp
qed

section \<open>The Acceptance Arbiter: rejections\<close>

text \<open>
  C5. A rejection by a vendor that is not the pickup's current \<open>assignedVendorRef\<close> is
  ignored: \<open>handleVendorRejection\<close> returns the ignored marker and leaves the state as it
  was, whatever the Offer Coordinator is (it is not called), and \<open>POST /api/vendor/reject\<close>
  answers 200 with result \<open>{ignored: true}\<close>.
\<close>

theorem stale_rejection_ignored:
  assumes "\<not> (\<exists>pid row a. p = JStr pid \<and> pickups st pid = Some row \<and>
                assigned_vendor_ref row = Some a \<and> v = JStr a)"
  shows "handleVendorRejection dispatch now p v st = (Inr ignored_marker, st)
       \<and> (ok (verify req) \<and> read_pickupId (js_or (body req) (JObj [])) = p \<and> truthy p \<and>
            read_vendorRef (js_or (body req) (JObj [])) = v \<and> truthy v \<longrightarrow>
            reject verify (handleVendorRejection dispatch now) req st =
              (Response 200 (JObj [(''success'', JBool True),
                                   (''result'', JObj [(''ignored'', JBool True)])]), st))"
proof -
  have h: "handleVendorRejection dispatch now p v st = (Inr ignored_marker, st)"
    using assms by (auto simp: handleVendorRejection_def split: jsval.splits option.splits)
  show ?thesis
    by (auto simp: h reject_def Let_def ignored_marker_def js_or_def)
qed

theorem stale_rejection_ignored_witness:
  "reject ok_sig (handleVendorRejection idle_dispatch 12)
      (callback (JObj [(''pickupId'', JStr ''p1''), (''vendor_id'', JStr ''V1'')])) offer_state =
     (Response 200 (JObj [(''success'', JBool True),
                          (''result'', JObj [(''ignored'', JBool True)])]), offer_state)"
proof -
  let ?req = "callback (JObj [(''pickupId'', JStr ''p1''), (''vendor_id'', JStr ''V1'')])"
  have h: "\<not> (\<exists>pid row a. JStr ''p1'' = JStr pid \<and> pickups offer_state pid = Some row \<and>
                assigned_vendor_ref row = Some a \<and> JStr ''V1'' = JStr a)"
    by (simp add: offer_state_def)
  have rd: "ok (ok_sig ?req)" "read_pickupId (js_or (body ?req) (JObj [])) = JStr ''p1''"
    "read_vendorRef (js_or (body ?req) (JObj [])) = JStr ''V1''"
    by (simp_all add: ok_sig_def callback_def read_pickupId_def read_vendorRef_def js_or_def
        js_get_def)
  from stale_rejection_ignored[OF h, of idle_dispatch 12 ok_sig ?req] rd
  show ?thesis by simp
qed

section \<open>The vendor callback boundary\<close>

lemma map_of_rest:
  "k \<notin> fst ` set rest \<Longrightarrow> map_of rest k = None"
  by (simp add: map_of_eq_None_iff)

lemma no_alias_rest:
  assumes "\<forall>k \<in> set (pickup_aliases @ vendor_aliases). k \<notin> fst ` set rest"
  shows "map_of rest ''pickupId'' = None" "map_of rest ''pickup_id'' = None"
    "map_of rest ''request_id'' = None" "map_of rest ''requestId'' = None"
    "map_of rest ''assignedVendorRef'' = None" "map_of rest ''vendor_id'' = None"
    "map_of rest ''vendorId'' = None"
  using assms by (simp_all add: pickup_aliases_def vendor_aliases_def map_of_rest)

lemma read_pickupId_alias:
  assumes "kp \<in> set pickup_aliases" "kv \<in> set vendor_aliases"
    and "\<forall>k \<in> set (pickup_aliases @ vendor_aliases). k \<notin> fst ` set rest"
  shows "read_pickupId (JObj ((kp, x) # (kv, y) # rest)) =
           (if truthy x \<or> kp = ''requestId'' then x else JUndefined)"
proof -
  note r = no_alias_rest[OF assms(3)]
  have kp: "kp = ''pickupId'' \<or> kp = ''pickup_id'' \<or> kp = ''request_id'' \<or> kp = ''requestId''"
    using assms(1) by (simp add: pickup_aliases_def)
  have kv: "kv = ''assignedVendorRef'' \<or> kv = ''vendor_id'' \<or> kv = ''vendorId''"
    using assms(2) by (simp add: vendor_aliases_def)
  show ?thesis
    using kp kv by (elim disjE) (simp_all add: read_pickupId_def js_get_def js_or_def r)
qed

lemma read_vendorRef_alias:
  assumes "kp \<in> set pickup_aliases" "kv \<in> set vendor_aliases"
    and "\<forall>k \<in> set (pickup_aliases @ vendor_aliases). k \<notin> fst ` set rest"
  shows "read_vendorRef (JObj ((kp, x) # (kv, y) # rest)) =
           (if truthy y \<or> kv = ''vendorId'' then y else JUndefined)"
proof -
  note r = no_alias_rest[OF assms(3)]
  have kp: "kp = ''pickupId'' \<or> kp = ''pickup_id'' \<or> kp = ''request_id'' \<or> kp = ''requestId''"
    using assms(1) by (simp add: pickup_aliases_def)
  have kv: "kv = ''assignedVendorRef'' \<or> kv = ''vendor_id'' \<or> kv = ''vendorId''"
    using assms(2) by (simp add: vendor_aliases_def)
  show ?thesis
    using kp kv by (elim disjE) (simp_all add: read_vendorRef_def js_get_def js_or_def r)
qed

lemma accept_by_reads:
  "verify req = verify req' \<Longrightarrow>
   truthy (read_pickupId (js_or (body req) (JObj []))) = truthy (read_pickupId (js_or (body req') (JObj []))) \<Longrightarrow>
   (truthy (read_pickupId (js_or (body req) (JObj []))) \<Longrightarrow>
      read_pickupId (js_or (body req) (JObj [])) = read_pickupId (js_or (body req') (JObj []))) \<Longrightarrow>
   truthy (read_vendorRef (js_or (body req) (JObj []))) = truthy (read_vendorRef (js_or (body req') (JObj []))) \<Longrightarrow>
   (truthy (read_vendorRef (js_or (body req) (JObj []))) \<Longrightarrow>
      read_vendorRef (js_or (body req) (JObj [])) = read_vendorRef (js_or (body req') (JObj []))) \<Longrightarrow>
   accept verify op req st = accept verify op req' st \<and> reject verify op' req st = reject verify op' req' st"
  by (auto simp: accept_def reject_def Let_def)

lemma accept_calls_dispatcher:
  assumes "ok (verify req)"
    and "read_pickupId (js_or (body req) (JObj [])) = x" "truthy x"
    and "read_vendorRef (js_or (body req) (JObj [])) = y" "truthy y"
  shows "accept verify op req st = accept_answer (op x y st)"
  using assms
  by (auto simp: accept_def accept_answer_def Let_def split: prod.splits sum.splits)

lemma reject_calls_dispatcher:
  assumes "ok (verify req)"
    and "read_pickupId (js_or (body req) (JObj [])) = x" "truthy x"
    and "read_vendorRef (js_or (body req) (JObj [])) = y" "truthy y"
  shows "reject verify op req st = reject_answer (op x y st)"
  using assms
  by (auto simp: reject_def reject_answer_def Let_def split: prod.splits sum.splits)

lemma no_call_without_ids:
  assumes "\<not> ok (verify req) \<or> \<not> truthy (read_pickupId (js_or (body req) (JObj []))) \<or>
           \<not> truthy (read_vendorRef (js_or (body req) (JObj [])))"
  shows "snd (accept verify op req st) = st" "snd (reject verify op' req st) = st"
  using assms by (auto simp: accept_def reject_def Let_def)

text \<open>
  C7, as stated, fails: two signed requests to \<open>POST /api/vendor/accept\<close> that differ
  only in the spelling of one pickup identifier (\<open>pickupId\<close> against \<open>requestId\<close>) call
  the dispatcher with different pairs when the body also carries \<open>pickup_id\<close>, since
  the spellings are read in a fixed order of precedence.
\<close>

theorem alias_precedence_counterexample:
  "snd (accept ok_sig recording (callback (JObj
      [(''pickupId'', JStr ''A''), (''vendor_id'', JStr ''V''), (''pickup_id'', JStr ''B'')])) [])
     = [(JStr ''A'', JStr ''V'')]
   \<and> snd (accept ok_sig recording (callback (JObj
      [(''requestId'', JStr ''A''), (''vendor_id'', JStr ''V''), (''pickup_id'', JStr ''B'')])) [])
     = [(JStr ''B'', JStr ''V'')]"
  by (simp add: accept_def ok_sig_def callback_def read_pickupId_def read_vendorRef_def
        js_or_def js_get_def recording_def)

text \<open>
  C7, amended. Take two requests to \<open>POST /api/vendor/accept\<close> (or \<open>/reject\<close>) that
  get the same verdict from the signature check, carry the same pickup identifier \<open>x\<close>
  under one of the accepted spellings and the same vendor identifier \<open>y\<close> under one of
  the accepted spellings, carry none of these keys a second time, and are otherwise
  equal. They get the same response and leave the same state, whatever the dispatcher
  is. When the signature is accepted and both identifiers are truthy, each route calls
  the dispatcher with exactly the pair \<open>(x, y)\<close>, once, and answers from the outcome of
  that call; otherwise the dispatcher is not called. The dispatcher never sees a spelling.
\<close>

theorem alias_normalisation:
  assumes "kp \<in> set pickup_aliases" "kp' \<in> set pickup_aliases"
    and "kv \<in> set vendor_aliases" "kv' \<in> set vendor_aliases"
    and "\<forall>k \<in> set (pickup_aliases @ vendor_aliases). k \<notin> fst ` set rest"
    and "body req = JObj ((kp, x) # (kv, y) # rest)"
    and "body req' = JObj ((kp', x) # (kv', y) # rest)"
    and "verify req = verify req'"
  shows "accept verify confirm req st = accept verify confirm req' st
       \<and> reject verify rejection req st = reject verify rejection req' st
       \<and> (ok (verify req) \<and> truthy x \<and> truthy y \<longrightarrow>
            accept verify confirm req st = accept_answer (confirm x y st) \<and>
            accept verify confirm req' st = accept_answer (confirm x y st) \<and>
            reject verify rejection req st = reject_answer (rejection x y st) \<and>
            reject verify rejection req' st = reject_answer (rejection x y st) \<and>
            snd (accept verify recording req calls) = calls @ [(x, y)] \<and>
            snd (accept verify recording req' calls) = calls @ [(x, y)] \<and>
            snd (reject verify recording req calls) = calls @ [(x, y)] \<and>
            snd (reject verify recording req' calls) = calls @ [(x, y)])
       \<and> (\<not> (ok (verify req) \<and> truthy x \<and> truthy y) \<longrightarrow>
            snd (accept verify recording req calls) = calls \<and>
            snd (accept verify recording req' calls) = calls \<and>
            snd (reject verify recording req calls) = calls \<and>
            snd (reject verify recording req' calls) = calls)"
proof -
  have b: "js_or (body req) (JObj []) = JObj ((kp, x) # (kv, y) # rest)"
       "js_or (body req') (JObj []) = JObj ((kp', x) # (kv', y) # rest)"
    using assms(6,7) by (simp_all add: js_or_def)
  note p = read_pickupId_alias[OF assms(1) assms(3) assms(5), of x y]
    read_pickupId_alias[OF assms(2) assms(4) assms(5), of x y]
  note v = read_vendorRef_alias[OF assms(1) assms(3) assms(5), of x y]
    read_vendorRef_alias[OF assms(2) assms(4) assms(5), of x y]
  have same: "accept verify confirm req st = accept verify confirm req' st
       \<and> reject verify rejection req st = reject verify rejection req' st"
    by (rule accept_by_reads) (auto simp: b p v assms(8))
  have called: "accept verify op req st' = accept_answer (op x y st') \<and>
      accept verify op req' st' = accept_answer (op x y st') \<and>
      reject verify op req st' = reject_answer (op x y st') \<and>
      reject verify op req' st' = reject_answer (op x y st')"
    if t: "ok (verify req)" "truthy x" "truthy y" for op :: "'b dispatcher_op" and st'
  proof -
    have rd: "read_pickupId (js_or (body req) (JObj [])) = x"
      "read_vendorRef (js_or (body req) (JObj [])) = y"
      "read_pickupId (js_or (body req') (JObj [])) = x"
      "read_vendorRef (js_or (body req') (JObj [])) = y"
      using t by (simp_all add: b p v)
    have ok': "ok (verify req')" using t(1) assms(8) by simp
    show ?thesis
      using accept_calls_dispatcher[where verify = verify and req = req and x = x and y = y
          and op = op and st = st']
        accept_calls_dispatcher[where verify = verify and req = req' and x = x and y = y
          and op = op and st = st']
        reject_calls_dispatcher[where verify = verify and req = req and x = x and y = y
          and op = op and st = st']
        reject_calls_dispatcher[where verify = verify and req = req' and x = x and y = y
          and op = op and st = st']
        t ok' rd
      by simp
  qed
  have rec: "snd (accept_answer (recording x y calls)) = calls @ [(x, y)]"
    "snd (reject_answer (recording x y calls)) = calls @ [(x, y)]"
    by (simp_all add: accept_answer_def reject_answer_def recording_def)
  have none: "snd (accept verify recording req calls) = calls \<and>
            snd (accept verify recording req' calls) = calls \<and>
            snd (reject verify recording req calls) = calls \<and>
            snd (reject verify recording req' calls) = calls"
    if n: "\<not> (ok (verify req) \<and> truthy x \<and> truthy y)"
  proof -
    have 1: "\<not> ok (verify req) \<or> \<not> truthy (read_pickupId (js_or (body req) (JObj []))) \<or>
           \<not> truthy (read_vendorRef (js_or (body req) (JObj [])))"
      using n by (auto simp: b p v)
    have 2: "\<not> ok (verify req') \<or> \<not> truthy (read_pickupId (js_or (body req') (JObj []))) \<or>
           \<not> truthy (read_vendorRef (js_or (body req') (JObj [])))"
      using n assms(8) by (auto simp: b p v)
    show ?thesis
      using no_call_without_ids[where verify = verify and req = req and st = calls]
        no_call_without_ids[where verify = verify and req = req' and st = calls] 1 2
      by simp
  qed
  show ?thesis
    using same called[of confirm st] called[of rejection st] called[of recording calls] rec none
    by auto
qed

theorem alias_normalisation_witness:
  "accept ok_sig recording (callback (JObj [(''request_id'', JStr ''p1''), (''vendorId'', JStr ''V3'')])) []
     = accept ok_sig recording (callback (JObj [(''pickupId'', JStr ''p1''), (''assignedVendorRef'', JStr ''V3'')])) []
   \<and> snd (accept ok_sig recording (callback (JObj [(''request_id'', JStr ''p1''), (''vendorId'', JStr ''V3'')])) [])
     = [(JStr ''p1'', JStr ''V3'')]
   \<and> snd (reject ok_sig recording (callback (JObj [(''request_id'', JStr ''p1''), (''vendorId'', JStr ''V3'')])) [])
     = [(JStr ''p1'', JStr ''V3'')]
   \<and> snd (reject ok_sig recording (callback (JObj [(''pickupId'', JStr ''p1''), (''assignedVendorRef'', JStr ''V3'')])) [])
     = [(JStr ''p1'', JStr ''V3'')]"
proof -
  let ?r = "callback (JObj [(''request_id'', JStr ''p1''), (''vendorId'', JStr ''V3'')])"
  let ?r' = "callback (JObj [(''pickupId'', JStr ''p1''), (''assignedVendorRef'', JStr ''V3'')])"
  have 1: "''request_id'' \<in> set pickup_aliases" "''pickupId'' \<in> set pickup_aliases"
    "''vendorId'' \<in> set vendor_aliases" "''assignedVendorRef'' \<in> set vendor_aliases"
    by (simp_all add: pickup_aliases_def vendor_aliases_def)
  have 2: "\<forall>k \<in> set (pickup_aliases @ vendor_aliases). k \<notin> fst ` set ([] :: (string \<times> jsval) list)"
    by simp
  have 3: "body ?r = JObj [(''request_id'', JStr ''p1''), (''vendorId'', JStr ''V3'')]"
    "body ?r' = JObj [(''pickupId'', JStr ''p1''), (''assignedVendorRef'', JStr ''V3'')]"
    "ok_sig ?r = ok_sig ?r'"
    by (simp_all add: callback_def ok_sig_def)
  have 4: "ok (ok_sig ?r)" "truthy (JStr ''p1'')" "truthy (JStr ''V3'')"
    by (simp_all add: ok_sig_def)
  from alias_normalisation[OF 1 2 3, where confirm = recording and st = "[]"
      and rejection = recording and calls = "[]"] 4
  show ?thesis by (simp add: accept_answer_def reject_answer_def recording_def)
qed

text \<open>
  C6 fails on \<open>POST /api/pickups/accepted\<close>: a signed request with a pickupId and no
  vendor identifier reaches \<open>confirmVendorAcceptance\<close> with \<open>undefined\<close> as the vendor and
  is answered from its result, where the sibling route \<open>POST /api/vendor/accept\<close>
  answers 400 without calling the dispatcher.
\<close>

theorem accepted_without_vendor:
  "accepted ok_sig recording (callback (JObj [(''pickupId'', JStr ''p1'')])) [] =
     (Response 409 (failure (JStr ''Could not confirm acceptance'')), [(JStr ''p1'', JUndefined)])
   \<and> accept ok_sig recording (callback (JObj [(''pickupId'', JStr ''p1'')])) [] =
     (Response 400 (failure vendor_required), [])"
  by (simp add: accepted_def accept_def ok_sig_def callback_def read_pickupId_def read_vendorRef_def
        js_or_def js_get_def recording_def)


section \<open>Customer retry and cancellation\<close>

lemma upper_literals:
  "js_toUpperCase ''REQUESTED'' = ''REQUESTED''"
  "js_toUpperCase ''FINDING_VENDOR'' = ''FINDING_VENDOR''"
  "js_toUpperCase ''ASSIGNED'' = ''ASSIGNED''"
  "js_toUpperCase ''ON_THE_WAY'' = ''ON_THE_WAY''"
  "js_toUpperCase ''COMPLETED'' = ''COMPLETED''"
  "js_toUpperCase ''NO_VENDOR_AVAILABLE'' = ''NO_VENDOR_AVAILABLE''"
  "js_toUpperCase ''CANCELLED'' = ''CANCELLED''"
  by (simp_all add: js_toUpperCase_def upper_char_def is_lower_def)

lemma upper_label: "js_toUpperCase (status_label s) = status_label s"
  by (cases s) (simp_all add: upper_literals)

lemma label_eqs:
  "status_label s = ''ASSIGNED'' \<longleftrightarrow> s = ASSIGNED"
  "status_label s = ''CANCELLED'' \<longleftrightarrow> s = CANCELLED"
  "status_label s = ''COMPLETED'' \<longleftrightarrow> s = COMPLETED"
  by (cases s; simp)+

text \<open>
  C3, as stated, fails for NO_VENDOR_AVAILABLE: the retry of a pickup whose candidates
  were exhausted is answered with 200, the record is put back to FINDING_VENDOR and a
  dispatch is started.
\<close>

theorem retry_after_exhaustion_counterexample:
  "find_vendor fair_world (customer_request ''p1'' JUndefined) exhausted_state =
     (Response 200 (JObj [(''success'', JBool True), (''pickupId'', JStr ''p1''),
                          (''status'', JStr ''FINDING_VENDOR'')]),
      exhausted_state\<lparr>pickups := [''p1'' \<mapsto> \<lparr>status = FINDING_VENDOR, assigned_vendor_ref = None,
          assignment_expires_at = None, cancelled_at = None, completed_at = None\<rparr>],
        dispatch_started := [JStr ''p1'']\<rparr>)"
  by (simp add: find_vendor_def fair_world_def customer_request_def exhausted_state_def Let_def
      js_or_def js_trim_def js_ws_def js_toUpperCase_def upper_char_def is_lower_def
      drop_dispatch_state_def update_row_def clear_timer_of_def)

text \<open>
  C3, amended. Customer retry refuses to proceed for every pickup whose status is
  ASSIGNED, COMPLETED or CANCELLED: the request is never answered with 200 (it is answered
  with 409 once it has passed the token, id and ownership checks), the pickup record is
  left unchanged and no new dispatch is started for it; indeed the whole state is left as
  it was.
\<close>

theorem retry_refused_when_decided:
  assumes "js_String (num_str w) (js_or (param_id req) (JStr [])) = Some raw"
    and "pickups st (js_trim raw) = Some row"
    and "status row = ASSIGNED \<or> status row = COMPLETED \<or> status row = CANCELLED"
  shows "snd (find_vendor w req st) = st
       \<and> pickups (snd (find_vendor w req st)) (js_trim raw) = Some row
       \<and> dispatch_started (snd (find_vendor w req st)) = dispatch_started st
       \<and> (\<forall>j. fst (find_vendor w req st) \<noteq> Response 200 j)
       \<and> (gates w req (js_trim raw) \<longrightarrow>
            fst (find_vendor w req st) = Response 409 (failure (JStr
              (''Cannot retry vendor assignment for status '' @ status_label (status row)))))"
proof -
  have unchanged: "snd (find_vendor w req st) = st"
    using assms
    by (auto simp: find_vendor_def Let_def upper_label upper_literals label_eqs
        split: option.splits)
  have refused: "\<forall>j. fst (find_vendor w req st) \<noteq> Response 200 j"
    using assms
    by (auto simp: find_vendor_def Let_def upper_label upper_literals label_eqs missing_token_def
        split: option.splits)
  have conflict: "gates w req (js_trim raw) \<longrightarrow>
            fst (find_vendor w req st) = Response 409 (failure (JStr
              (''Cannot retry vendor assignment for status '' @ status_label (status row))))"
    using assms
    by (auto simp: find_vendor_def Let_def upper_label upper_literals label_eqs gates_def
        split: option.splits)
  show ?thesis using unchanged refused conflict assms(2) by simp
qed

theorem retry_refused_when_decided_witness:
  "find_vendor fair_world (customer_request ''p1'' JUndefined) assigned_state =
     (Response 409 (failure (JStr ''Cannot retry vendor assignment for status ASSIGNED'')),
      assigned_state)"
proof -
  let ?req = "customer_request ''p1'' JUndefined"
  have raw: "js_String (num_str fair_world) (js_or (param_id ?req) (JStr [])) = Some ''p1''"
    by (simp add: customer_request_def js_or_def)
  have trim: "js_trim ''p1'' = ''p1''"
    by (simp add: js_trim_def js_ws_def)
  have g: "gates fair_world ?req ''p1''"
    by (simp add: gates_def fair_world_def)
  have r: "pickups assigned_state (js_trim ''p1'') = Some \<lparr>status = ASSIGNED,
      assigned_vendor_ref = Some ''V3'', assignment_expires_at = None, cancelled_at = None,
      completed_at = None\<rparr>"
    by (simp add: trim assigned_state_def)
  have s: "status \<lparr>status = ASSIGNED,
      assigned_vendor_ref = Some ''V3'', assignment_expires_at = None, cancelled_at = None,
      completed_at = None\<rparr> = ASSIGNED \<or> status \<lparr>status = ASSIGNED,
      assigned_vendor_ref = Some ''V3'', assignment_expires_at = None, cancelled_at = None,
      completed_at = None\<rparr> = COMPLETED \<or> status \<lparr>status = ASSIGNED,
      assigned_vendor_ref = Some ''V3'', assignment_expires_at = None, cancelled_at = None,
      completed_at = None\<rparr> = CANCELLED"
    by simp
  from retry_refused_when_decided[OF raw r s] g
  show ?thesis
    by (simp add: trim prod_eq_iff)
qed




section \<open>Validation of a pickup creation\<close>

lemma blank_cases:
  "absent_or_blank v \<Longrightarrow> blank ns v = Some True"
  by (auto simp: absent_or_blank_def blank_def split: jsval.splits)

lemma malformed_validate:
  assumes "malformed b"
  shows "validatePickupBody ns b = Inl TypeError \<or>
         (\<exists>m. m \<noteq> [] \<and> validatePickupBody ns b = Inr (Some m))"
proof -
  consider (items) "\<not> isArray (js_get b ''items'') \<or> array_length (js_get b ''items'') = 0"
    | (addr) "absent_or_blank (js_get b ''address'')"
    | (slot) "absent_or_blank (js_get b ''timeSlot'')"
    | (lat) "non_numeric (js_get b ''latitude'')"
    | (lon) "non_numeric (js_get b ''longitude'')"
    using assms by (auto simp: malformed_def isArray_def array_length_def split: jsval.splits)
  then show ?thesis
  proof cases
    case items
    then show ?thesis by (auto simp: validatePickupBody_def)
  next
    case addr
    then show ?thesis by (auto simp: validatePickupBody_def blank_cases)
  next
    case slot
    then show ?thesis
      by (auto simp: validatePickupBody_def blank_cases split: option.splits bool.splits)
  next
    case lat
    then show ?thesis
      by (auto simp: validatePickupBody_def non_numeric_def split: option.splits bool.splits)
  next
    case lon
    then show ?thesis
      by (auto simp: validatePickupBody_def non_numeric_def split: option.splits bool.splits)
  qed
qed

lemma malformed_never_touches_state:
  assumes "malformed (body req)"
  shows "create w req st = (Unhandled, st) \<or>
         (\<exists>m. create w req st = (Response 400 (failure (JStr m)), st))"
  using malformed_validate[OF assms, of "num_str w"]
  by (auto simp: create_def)

lemma malformed_rejected_if_no_throw:
  assumes "malformed (body req)" "validatePickupBody (num_str w) (body req) \<noteq> Inl TypeError"
  shows "\<exists>m. create w req st = (Response 400 (failure (JStr m)), st)"
  using malformed_validate[OF assms(1), of "num_str w"] assms(2)
  by (auto simp: create_def)

text \<open>
  C8 fails at a body that is malformed (it has no time slot) and whose address is an
  object with a \<open>toString\<close> key: \<open>String(body.address)\<close> throws in
  \<open>validatePickupBody\<close>, before the time slot is looked at and outside the \<open>try\<close>
  block, so the handler ends without the 400 response. No state is touched. (By
  \<open>malformed_rejected_if_no_throw\<close> every malformed body on which the validation does
  not throw is answered with 400 and leaves the state as it was.)
\<close>

theorem create_poisoned_body_unhandled:
  "malformed poisoned_body \<and>
   create w (customer_request [] poisoned_body) st = (Unhandled, st)"
  by (simp add: malformed_def poisoned_body_def js_get_def absent_or_blank_def create_def
      customer_request_def validatePickupBody_def isArray_def array_length_def blank_def)


section \<open>Admin rates\<close>












section \<open>Vendor presence\<close>

lemma typeof_numberE: "typeof_number v \<Longrightarrow> \<exists>n. v = JNum n"
  by (cases v) (simp_all add: typeof_number_def)

lemma coalesce_num: "js_coalesce (JNum n) JNull = JNum n"
  by (simp add: js_coalesce_def js_nullish_def)

lemma location_rejects:
  assumes "\<not> truthy (incoming (js_or (body req) (JObj []))) \<or>
    \<not> typeof_number (js_get (js_or (body req) (JObj [])) ''latitude'') \<or>
    \<not> typeof_number (js_get (js_or (body req) (JObj [])) ''longitude'')"
  shows "\<exists>msg. location w req st = (Response 400 (failure (JStr msg)), st)"
  using assms by (auto simp: location_def Let_def incoming_def)

lemma incoming_falsy:
  "\<not> truthy (js_get b ''vendor_id'') \<Longrightarrow> \<not> truthy (js_get b ''vendorId'') \<Longrightarrow>
   \<not> truthy (js_get b ''vendorRef'') \<Longrightarrow> \<not> truthy (incoming b)"
  by (simp add: incoming_def js_or_def)

lemma location_accepts:
  assumes "truthy (incoming (js_or (body req) (JObj [])))"
    and "js_get (js_or (body req) (JObj [])) ''latitude'' = JNum x"
    and "js_get (js_or (body req) (JObj [])) ''longitude'' = JNum y"
  shows "location w req st =
     (if service_client_error w \<noteq> None
      then (Response 500 (failure (JStr ''Vendor location failed'')), st)
      else
        (case js_String (num_str w) (incoming (js_or (body req) (JObj []))) of
           None \<Rightarrow> (Response 500 (failure (JStr ''Vendor location failed'')), st)
         | Some vid \<Rightarrow>
             (case preferred_upsert_error w of
                None \<Rightarrow>
                  (location_ok w vid (clock w), st\<lparr>preferred := (preferred st)(vid \<mapsto>
                     \<lparr>offer_url = js_or (js_or (js_get (js_or (body req) (JObj [])) ''offer_url'')
                                   (js_get (js_or (body req) (JObj [])) ''offerUrl'')) JNull,
                      updated_at = clock w, vendor_id = vid,
                      latitude = JNum x, longitude = JNum y, is_available = True\<rparr>)\<rparr>)
              | Some m \<Rightarrow>
                  if schema_mismatch m
                  then
                    (case legacy_upsert_error w of
                       None \<Rightarrow>
                         (location_ok w vid (clock w), st\<lparr>legacy := (legacy st)(vid \<mapsto>
                           \<lparr>offer_url = js_or (js_or (js_get (js_or (body req) (JObj [])) ''offer_url'')
                                   (js_get (js_or (body req) (JObj [])) ''offerUrl'')) JNull,
                            updated_at = clock w, vendor_ref = vid,
                            last_latitude = JNum x, last_longitude = JNum y, active = True\<rparr>)\<rparr>)
                     | Some m' \<Rightarrow> (Response 400 (upsert_failed m'), st))
                  else (Response 400 (upsert_failed m), st))))"
  using assms
  by (simp add: location_def Let_def incoming_def typeof_number_def coalesce_num
      split: option.splits)


lemma location_success:
  assumes a: "fst (location w req st) = Response 200 j"
  shows "\<exists>vid u x y.
           js_String (num_str w) (incoming (js_or (body req) (JObj []))) = Some vid \<and>
           js_get (js_or (body req) (JObj [])) ''latitude'' = JNum x \<and>
           js_get (js_or (body req) (JObj [])) ''longitude'' = JNum y \<and>
           ((preferred_upsert_error w = None \<and>
             snd (location w req st) = st\<lparr>preferred := (preferred st)(vid \<mapsto>
               \<lparr>offer_url = u, updated_at = clock w, vendor_id = vid,
                latitude = JNum x, longitude = JNum y, is_available = True\<rparr>)\<rparr>) \<or>
            ((\<exists>m. preferred_upsert_error w = Some m \<and> schema_mismatch m) \<and>
             legacy_upsert_error w = None \<and>
             snd (location w req st) = st\<lparr>legacy := (legacy st)(vid \<mapsto>
               \<lparr>offer_url = u, updated_at = clock w, vendor_ref = vid,
                last_latitude = JNum x, last_longitude = JNum y, active = True\<rparr>)\<rparr>))"
proof -
  let ?b = "js_or (body req) (JObj [])"
  have "\<not> (\<not> truthy (incoming ?b) \<or> \<not> typeof_number (js_get ?b ''latitude'') \<or>
      \<not> typeof_number (js_get ?b ''longitude''))"
  proof
    assume "\<not> truthy (incoming ?b) \<or> \<not> typeof_number (js_get ?b ''latitude'') \<or>
      \<not> typeof_number (js_get ?b ''longitude'')"
    from location_rejects[OF this, of w st] obtain msg where
      "location w req st = (Response 400 (failure (JStr msg)), st)" by blast
    with a show False by simp
  qed
  then have ok: "truthy (incoming ?b)" "typeof_number (js_get ?b ''latitude'')"
    "typeof_number (js_get ?b ''longitude'')"
    by blast+
  obtain x y where xy: "js_get ?b ''latitude'' = JNum x" "js_get ?b ''longitude'' = JNum y"
    using typeof_numberE[OF ok(2)] typeof_numberE[OF ok(3)] by blast
  note eq = location_accepts[OF ok(1) xy, of w st]
  from a have s: "service_client_error w = None"
    unfolding eq by (auto split: if_splits)
  from a s obtain vid where vid: "js_String (num_str w) (incoming ?b) = Some vid"
    unfolding eq by (auto split: option.splits)
  show ?thesis
  proof (cases "preferred_upsert_error w")
    case None
    then show ?thesis using xy vid s unfolding eq by auto
  next
    case (Some m)
    with a s vid have m: "schema_mismatch m" "legacy_upsert_error w = None"
      unfolding eq by (auto split: if_splits option.splits)
    then show ?thesis using xy vid s Some unfolding eq by auto
  qed
qed

lemma mismatch_example:
  "schema_mismatch ''Column vendor_id of relation vendor_backends does not exist''"
  by (simp add: schema_mismatch_def lower_char_def is_upper_def line_terminator_def)

lemma legacy_fallback:
  "location legacy_store location_update no_vendors =
     (location_ok legacy_store ''V7'' 50,
      no_vendors\<lparr>legacy := [''V7'' \<mapsto>
        \<lparr>offer_url = JNull, updated_at = 50, vendor_ref = ''V7'',
         last_latitude = JNum (JFin 12), last_longitude = JNum (JFin 77), active = True\<rparr>]\<rparr>)"
proof -
  have t: "truthy (incoming (js_or (body location_update) (JObj [])))"
    "js_get (js_or (body location_update) (JObj [])) ''latitude'' = JNum (JFin 12)"
    "js_get (js_or (body location_update) (JObj [])) ''longitude'' = JNum (JFin 77)"
    by (simp_all add: location_update_def callback_def incoming_def js_or_def js_get_def)
  have w: "service_client_error legacy_store = None" "clock legacy_store = 50"
    "preferred_upsert_error legacy_store =
       Some ''Column vendor_id of relation vendor_backends does not exist''"
    "legacy_upsert_error legacy_store = None"
    by (simp_all add: legacy_store_def)
  have v: "js_String (num_str legacy_store) (incoming (js_or (body location_update) (JObj []))) =
      Some ''V7''"
    "js_or (js_or (js_get (js_or (body location_update) (JObj [])) ''offer_url'')
                  (js_get (js_or (body location_update) (JObj [])) ''offerUrl'')) JNull = JNull"
    by (simp_all add: location_update_def callback_def incoming_def js_or_def js_get_def)
  show ?thesis
    unfolding location_accepts[OF t]
    by (simp add: w v mismatch_example no_vendors_def)
qed

text \<open>
  C10. A location request with no truthy vendor identifier under any of \<open>vendor_id\<close>,
  \<open>vendorId\<close>, \<open>vendorRef\<close>, or whose latitude or longitude is not a number, is answered
  with 400 and writes nothing. A request answered with 200 has written exactly one row,
  keyed on the string of the vendor identifier, with the vendor marked available and the
  given coordinates: in the preferred schema when that upsert succeeds, in the legacy
  schema when the preferred upsert fails with a schema error and the legacy one succeeds.
\<close>

theorem location_upsert:
  "((\<not> truthy (js_get (js_or (body req) (JObj [])) ''vendor_id'') \<and>
     \<not> truthy (js_get (js_or (body req) (JObj [])) ''vendorId'') \<and>
     \<not> truthy (js_get (js_or (body req) (JObj [])) ''vendorRef'')) \<or>
    \<not> typeof_number (js_get (js_or (body req) (JObj [])) ''latitude'') \<or>
    \<not> typeof_number (js_get (js_or (body req) (JObj [])) ''longitude'') \<longrightarrow>
      (\<exists>msg. location w req st = (Response 400 (failure (JStr msg)), st)))
   \<and> (fst (location w req st) = Response 200 j \<longrightarrow>
        (\<exists>vid u x y.
           js_String (num_str w) (incoming (js_or (body req) (JObj []))) = Some vid \<and>
           js_get (js_or (body req) (JObj [])) ''latitude'' = JNum x \<and>
           js_get (js_or (body req) (JObj [])) ''longitude'' = JNum y \<and>
           ((preferred_upsert_error w = None \<and>
             snd (location w req st) = st\<lparr>preferred := (preferred st)(vid \<mapsto>
               \<lparr>offer_url = u, updated_at = clock w, vendor_id = vid,
                latitude = JNum x, longitude = JNum y, is_available = True\<rparr>)\<rparr>) \<or>
            ((\<exists>m. preferred_upsert_error w = Some m \<and> schema_mismatch m) \<and>
             legacy_upsert_error w = None \<and>
             snd (location w req st) = st\<lparr>legacy := (legacy st)(vid \<mapsto>
               \<lparr>offer_url = u, updated_at = clock w, vendor_ref = vid,
                last_latitude = JNum x, last_longitude = JNum y, active = True\<rparr>)\<rparr>))))"
  using location_rejects[of req w st] incoming_falsy[of "js_or (body req) (JObj [])"]
    location_success[of w req st j]
  by blast

theorem location_upsert_witness:
  "(\<exists>msg. location legacy_store
       (callback (JObj [(''vendorId'', JStr ''V7''), (''latitude'', JStr ''12''),
                        (''longitude'', JNum (JFin 77))])) no_vendors =
       (Response 400 (failure (JStr msg)), no_vendors))
   \<and> (\<exists>row. legacy (snd (location legacy_store location_update no_vendors)) ''V7'' = Some row \<and>
          active row \<and> last_latitude row = JNum (JFin 12) \<and> last_longitude row = JNum (JFin 77))
   \<and> preferred (snd (location legacy_store location_update no_vendors)) = Map.empty"
proof -
  let ?bad = "callback (JObj [(''vendorId'', JStr ''V7''), (''latitude'', JStr ''12''),
                        (''longitude'', JNum (JFin 77))])"
  have nolat: "\<not> typeof_number (js_get (js_or (body ?bad) (JObj [])) ''latitude'')"
    by (simp add: callback_def js_or_def js_get_def typeof_number_def)
  from location_upsert[of ?bad legacy_store no_vendors] nolat
  have a: "\<exists>msg. location legacy_store ?bad no_vendors =
       (Response 400 (failure (JStr msg)), no_vendors)"
    by blast
  have ok: "fst (location legacy_store location_update no_vendors) =
      Response 200 (JObj [(''success'', JBool True), (''vendor_id'', JStr ''V7''),
                          (''updated_at'', JStr ''1970-01-01T00:00:00.050Z'')])"
  proof -
    have "location_ok legacy_store ''V7'' 50 =
      Response 200 (JObj [(''success'', JBool True), (''vendor_id'', JStr ''V7''),
                          (''updated_at'', JStr ''1970-01-01T00:00:00.050Z'')])"
      by (simp add: location_ok_def js_or_def legacy_store_def)
    then show ?thesis by (simp add: legacy_fallback)
  qed
  have pe: "preferred_upsert_error legacy_store \<noteq> None"
    by (simp add: legacy_store_def)
  have xy: "js_get (js_or (body location_update) (JObj [])) ''latitude'' = JNum (JFin 12)"
    "js_get (js_or (body location_update) (JObj [])) ''longitude'' = JNum (JFin 77)"
    "js_String (num_str legacy_store) (incoming (js_or (body location_update) (JObj []))) =
      Some ''V7''"
    by (simp_all add: location_update_def callback_def incoming_def js_or_def js_get_def)
  from location_upsert[where req = location_update and w = legacy_store and st = no_vendors
      and j = "JObj [(''success'', JBool True), (''vendor_id'', JStr ''V7''),
                     (''updated_at'', JStr ''1970-01-01T00:00:00.050Z'')]"] ok pe
  obtain vid u x y where h:
    "js_String (num_str legacy_store) (incoming (js_or (body location_update) (JObj []))) =
       Some vid"
    "js_get (js_or (body location_update) (JObj [])) ''latitude'' = JNum x"
    "js_get (js_or (body location_update) (JObj [])) ''longitude'' = JNum y"
    "snd (location legacy_store location_update no_vendors) =
       no_vendors\<lparr>legacy := (legacy no_vendors)(vid \<mapsto>
               \<lparr>offer_url = u, updated_at = clock legacy_store, vendor_ref = vid,
                last_latitude = JNum x, last_longitude = JNum y, active = True\<rparr>)\<rparr>"
    by blast
  from h(1,2,3) xy have e: "vid = ''V7''" "x = JFin 12" "y = JFin 77" by simp_all
  have b: "\<exists>row. legacy (snd (location legacy_store location_update no_vendors)) ''V7'' = Some row \<and>
          active row \<and> last_latitude row = JNum (JFin 12) \<and> last_longitude row = JNum (JFin 77)"
    unfolding h(4) e by simp
  have c: "preferred (snd (location legacy_store location_update no_vendors)) = Map.empty"
    unfolding h(4) by (simp add: no_vendors_def)
  show ?thesis using a b c by blast
qed

end
